theory Spec2Isabelle
  imports Complex_Main
begin

section \<open>Client-side cart and checkout of the furniture store (static/js/main.js)\<close>

text \<open>
  The development embeds the cart store, the checkout aggregator, the recently-viewed
  tracker and the currency formatter of \<^verbatim>\<open>main.js\<close>.

  Conventions of the embedding.
  \<^item> JavaScript numbers that hold amounts and quantities are integer-valued doubles, carried
    as \<^typ>\<open>int\<close>: the handlers produce them with \<^verbatim>\<open>parseInt\<close>. Their sums, differences
    and products are rounded to 53 significant bits, ties to even, as the double
    operations \<^verbatim>\<open>+\<close>, \<^verbatim>\<open>-\<close> and \<^verbatim>\<open>*\<close> round them (functions \<open>js_add\<close>, \<open>js_sub\<close>,
    \<open>js_mul\<close> below); the results are exact up to \<open>2^53\<close> in magnitude. Fractions,
    \<^verbatim>\<open>NaN\<close> and the overflow to \<^verbatim>\<open>Infinity\<close> from \<open>2^1024\<close> on are outside the model.
  \<^item> Product identifiers are values of a type \<open>'id\<close>. The cart handlers receive them as DOM
    strings (\<^verbatim>\<open>URLSearchParams.get\<close>, \<^verbatim>\<open>dataset.id\<close>), and the recently-viewed tracker
    receives them from product objects; between two values of one primitive type the
    operators \<^verbatim>\<open>===\<close>, \<^verbatim>\<open>==\<close> and \<^verbatim>\<open>!=\<close> are identity and its negation, which is HOL
    equality. Only the fallback catalogue lookup compares a catalogue id with a cart id;
    there \<^verbatim>\<open>==\<close> is a parameter.
  \<^item> A stored text of \<^verbatim>\<open>localStorage\<close> is represented by what \<^verbatim>\<open>JSON.parse\<close> does with it
    (type \<open>blob\<close> below), and \<^verbatim>\<open>JSON.stringify v\<close> is the text that parses back to \<open>v\<close>.
  \<^item> Rendering into the DOM is left out, apart from the cart badge, the notifications and
    the navigation target, which are fields of the page state.
\<close>

subsection \<open>Data model\<close>

text \<open>A cart line \<^verbatim>\<open>{id, quantity}\<close>.\<close>

record 'id line =
  line_id :: 'id
  quantity :: int

text \<open>
  What \<^verbatim>\<open>JSON.parse\<close> makes of a stored text: the empty string and any other text that
  is not JSON raise \<^verbatim>\<open>SyntaxError\<close>; the texts \<^verbatim>\<open>null\<close>, \<^verbatim>\<open>false\<close>, \<^verbatim>\<open>0\<close> and
  \<^verbatim>\<open>""\<close> parse to a falsy value; \<open>Json v\<close> is the text written by
  \<^verbatim>\<open>JSON.stringify v\<close>. The empty string is kept apart because
  \<^verbatim>\<open>getItem(k) || '[]'\<close> replaces it before parsing.
\<close>

datatype 'a blob = Empty_text | Malformed | Json_falsy | Json 'a

datatype error = SyntaxError | TypeError | ApiError

text \<open>The snapshot of a viewed product written by \<^verbatim>\<open>saveViewedProduct\<close>.\<close>

record 'id viewed =
  viewed_id :: 'id
  viewed_name :: string
  viewed_price :: int
  viewed_original_price :: "int option"
  viewed_image :: string
  viewed_category :: string
  viewed_discount_percentage :: "int option"
  viewed_rating :: "real option"

text \<open>A product as the catalogue service or the sample table delivers it.\<close>

record 'id product =
  product_id :: 'id
  name :: string
  price :: int
  original_price :: "int option"
  discount_percentage :: "int option"
  image :: string
  category :: string
  rating :: "real option"
  review_count :: "int option"

text \<open>The order record assembled by the submit handler of the checkout form.\<close>

record customer =
  fullname :: "string option"
  phone :: "string option"
  email :: "string option"

record shipping_info =
  address :: "string option"
  province :: "string option"
  district :: "string option"
  ward :: "string option"
  note_text :: "string option"

record totals_text =
  subtotal_text :: string
  discount_text :: string
  shipping_text :: string
  total_text :: string

type_synonym date = int

record 'id order =
  order_id :: string
  order_date :: date
  order_customer :: customer
  order_shipping :: shipping_info
  shipping_method :: string
  payment_method :: string
  items :: "'id line list"
  totals :: totals_text
  estimated_delivery :: "date \<times> date"

text \<open>The three keys of \<^verbatim>\<open>localStorage\<close> that this core reads and writes.\<close>

record 'id storage =
  cart_key :: "'id line list blob option"
  viewedProducts_key :: "'id viewed list blob option"
  lastOrder_key :: "'id order blob option"

datatype notice = Added_to_cart | Cart_cleared | Cart_is_empty

datatype level = Success | Failure

text \<open>
  The page state: the global variable \<^verbatim>\<open>cart\<close>, the persisted store, the text of the
  \<^verbatim>\<open>.cart-count\<close> badge, the notifications shown so far and \<^verbatim>\<open>window.location.href\<close>.
\<close>

record 'id page =
  cart :: "'id line list"
  storage :: "'id storage"
  cart_count :: int
  notifications :: "(notice \<times> level) list"
  href :: string

definition empty_storage :: "'id storage" where
  "empty_storage = \<lparr>cart_key = None, viewedProducts_key = None, lastOrder_key = None\<rparr>"

definition empty_page :: "'id page" where
  "empty_page = \<lparr>cart = [], storage = empty_storage, cart_count = 0,
     notifications = [], href = ''/''\<rparr>"

subsection \<open>Arithmetic of integer-valued doubles\<close>

text \<open>
  The number of low bits that a double drops from the integer \<open>n\<close>: none below \<open>2^53\<close>,
  and one more for every further binary digit.
\<close>

function exponent :: "nat \<Rightarrow> nat" where
  "exponent n = (if n < 2 ^ 53 then 0 else Suc (exponent (n div 2)))"
  by pat_completeness auto
termination
  by (relation "measure id") auto

declare exponent.simps [simp del]

text \<open>Rounding to the nearest integer with 53 significant bits, a tie going to the even one.\<close>

definition round53_nat :: "nat \<Rightarrow> nat" where
  "round53_nat n =
     (let e = exponent n; q = n div 2 ^ e; r = n mod 2 ^ e
      in if 2 ^ e < 2 * r \<or> (2 * r = 2 ^ e \<and> odd q) then (q + 1) * 2 ^ e else q * 2 ^ e)"

definition round53 :: "int \<Rightarrow> int" where
  "round53 x = (if x < 0 then - int (round53_nat (nat (- x))) else int (round53_nat (nat x)))"

text \<open>The operators \<^verbatim>\<open>+\<close>, \<^verbatim>\<open>-\<close> and \<^verbatim>\<open>*\<close> on two integer-valued doubles.\<close>

definition js_add :: "int \<Rightarrow> int \<Rightarrow> int" where
  "js_add a b = round53 (a + b)"

definition js_sub :: "int \<Rightarrow> int \<Rightarrow> int" where
  "js_sub a b = round53 (a - b)"

definition js_mul :: "int \<Rightarrow> int \<Rightarrow> int" where
  "js_mul a b = round53 (a * b)"

subsection \<open>Cart store\<close>

text \<open>\<^verbatim>\<open>Array.prototype.findIndex\<close>; \<open>None\<close> stands for the result \<open>-1\<close>.\<close>

fun findIndex :: "('a \<Rightarrow> bool) \<Rightarrow> 'a list \<Rightarrow> nat option" where
  "findIndex P [] = None"
| "findIndex P (x # xs) = (if P x then Some 0 else map_option Suc (findIndex P xs))"

text \<open>\<^verbatim>\<open>localStorage.setItem('cart', JSON.stringify(cart))\<close>.\<close>

definition save_cart :: "'id page \<Rightarrow> 'id page" where
  "save_cart st = st\<lparr>storage := (storage st)\<lparr>cart_key := Some (Json (cart st))\<rparr>\<rparr>"

text \<open>\<^verbatim>\<open>updateCartCount\<close>: the badge shows the sum of the quantities, reduced from 0.\<close>

definition updateCartCount :: "'id page \<Rightarrow> 'id page" where
  "updateCartCount st =
     st\<lparr>cart_count := foldl (\<lambda>total item. js_add total (quantity item)) 0 (cart st)\<rparr>"

definition showNotification :: "notice \<Rightarrow> level \<Rightarrow> 'id page \<Rightarrow> 'id page" where
  "showNotification message type st = st\<lparr>notifications := notifications st @ [(message, type)]\<rparr>"

text \<open>
  \<^verbatim>\<open>addToCart(productId, quantity = 1)\<close>. \<^verbatim>\<open>cart.find\<close> returns the first line whose id is
  \<^verbatim>\<open>=== productId\<close>, and the handler mutates that object in place: the line at the
  first matching index gets \<^verbatim>\<open>quantity += quantity\<close>, a double addition. Otherwise a
  new line is pushed. The quantity is not inspected.
\<close>

definition addToCart :: "'id \<Rightarrow> int \<Rightarrow> 'id page \<Rightarrow> 'id page" where
  "addToCart productId qty st =
     (let cart' =
        (case findIndex (\<lambda>item. line_id item = productId) (cart st) of
           Some i \<Rightarrow>
             (cart st)[i := (cart st ! i)\<lparr>quantity := js_add (quantity (cart st ! i)) qty\<rparr>]
         | None \<Rightarrow> cart st @ [\<lparr>line_id = productId, quantity = qty\<rparr>])
      in showNotification Added_to_cart Success
           (updateCartCount (save_cart (st\<lparr>cart := cart'\<rparr>))))"

text \<open>\<^verbatim>\<open>removeCartItem(productId)\<close>: filter, save, refresh the badge.\<close>

definition removeCartItem :: "'id \<Rightarrow> 'id page \<Rightarrow> 'id page" where
  "removeCartItem productId st =
     updateCartCount (save_cart (st\<lparr>cart := filter (\<lambda>item. line_id item \<noteq> productId) (cart st)\<rparr>))"

text \<open>
  \<^verbatim>\<open>updateCartItem(productId, quantity)\<close>: nothing happens when no line has the id; a
  quantity \<open>\<le> 0\<close> removes the product; otherwise the line at the found index is
  overwritten and the cart saved (the badge is not refreshed on this branch).
\<close>

definition updateCartItem :: "'id \<Rightarrow> int \<Rightarrow> 'id page \<Rightarrow> 'id page" where
  "updateCartItem productId qty st =
     (case findIndex (\<lambda>item. line_id item = productId) (cart st) of
        None \<Rightarrow> st
      | Some index \<Rightarrow>
          if qty \<le> 0 then removeCartItem productId st
          else save_cart (st\<lparr>cart := (cart st)[index := (cart st ! index)\<lparr>quantity := qty\<rparr>]\<rparr>))"

text \<open>\<^verbatim>\<open>clearCart\<close>.\<close>

definition clearCart :: "'id page \<Rightarrow> 'id page" where
  "clearCart st = showNotification Cart_cleared Success (updateCartCount (save_cart (st\<lparr>cart := []\<rparr>)))"

text \<open>A cart operation of the store's contract, and a run of operations from left to right.\<close>

datatype 'id cart_op = Add 'id int | SetQuantity 'id int | Remove 'id

fun apply_cart_op :: "'id cart_op \<Rightarrow> 'id page \<Rightarrow> 'id page" where
  "apply_cart_op (Add p q) st = addToCart p q st"
| "apply_cart_op (SetQuantity p q) st = updateCartItem p q st"
| "apply_cart_op (Remove p) st = removeCartItem p st"

fun run_cart_ops :: "'id cart_op list \<Rightarrow> 'id page \<Rightarrow> 'id page" where
  "run_cart_ops [] st = st"
| "run_cart_ops (op # ops) st = run_cart_ops ops (apply_cart_op op st)"

text \<open>The invariant of the data model: ids unique, every stored quantity at least 1.\<close>

definition cart_ok :: "'id line list \<Rightarrow> bool" where
  "cart_ok c \<longleftrightarrow> distinct (map line_id c) \<and> list_all (\<lambda>item. 1 \<le> quantity item) c"

text \<open>
  The same update of the line list as in \<^verbatim>\<open>addToCart\<close>, written by recursion on the
  list (used to reason about repeated adds).
\<close>

fun add_line :: "'id \<Rightarrow> int \<Rightarrow> 'id line list \<Rightarrow> 'id line list" where
  "add_line p q [] = [\<lparr>line_id = p, quantity = q\<rparr>]"
| "add_line p q (x # xs) =
     (if line_id x = p then x\<lparr>quantity := js_add (quantity x) q\<rparr> # xs
      else x # add_line p q xs)"

text \<open>Runs in which every \<^verbatim>\<open>add\<close> carries a quantity of at least 1.\<close>

fun positive_add :: "'id cart_op \<Rightarrow> bool" where
  "positive_add (Add p q) = (1 \<le> q)"
| "positive_add (SetQuantity p q) = True"
| "positive_add (Remove p) = True"

subsection \<open>Currency formatter\<close>

text \<open>
  \<^verbatim>\<open>amount.toLocaleString('vi-VN')\<close> of an integer amount: the decimal digits in groups
  of three separated by a full stop, with a leading minus sign for a negative amount
  (the grouping of the \<^verbatim>\<open>vi\<close> locale data). The function belongs to the platform, not
  to the repository.
\<close>

definition digit_char :: "nat \<Rightarrow> char" where
  "digit_char d = char_of (48 + d)"

fun decimal :: "nat \<Rightarrow> string" where
  "decimal n = (if n < 10 then [digit_char n] else decimal (n div 10) @ [digit_char (n mod 10)])"

declare decimal.simps [simp del]

text \<open>Grouping works on the digits from the least significant one.\<close>

fun group3 :: "string \<Rightarrow> string" where
  "group3 (a # b # c # d # rest) = a # b # c # CHR ''.'' # group3 (d # rest)"
| "group3 ds = ds"

definition toLocaleString_viVN :: "int \<Rightarrow> string" where
  "toLocaleString_viVN amount =
     (if amount < 0 then ''-'' else []) @ rev (group3 (rev (decimal (nat \<bar>amount\<bar>))))"

text \<open>The dong sign U+20AB, as the three bytes of its UTF-8 encoding.\<close>

definition dong_sign :: string where
  "dong_sign = [CHR 0xE2, CHR 0x82, CHR 0xAB]"

text \<open>\<^verbatim>\<open>formatCurrency(amount)\<close>.\<close>

definition formatCurrency :: "int \<Rightarrow> string" where
  "formatCurrency amount = toLocaleString_viVN amount @ dong_sign"

text \<open>\<^verbatim>\<open>text.replace(/[^0-9]/g, '')\<close>: keep the characters \<^verbatim>\<open>0\<close> to \<^verbatim>\<open>9\<close>.\<close>

definition is_digit :: "char \<Rightarrow> bool" where
  "is_digit c \<longleftrightarrow> (48::nat) \<le> of_char c \<and> (of_char c :: nat) \<le> 57"

definition strip_non_digits :: "string \<Rightarrow> string" where
  "strip_non_digits text = filter is_digit text"

text \<open>
  \<^verbatim>\<open>parseFloat\<close> on a text of decimal digits; the empty text gives \<^verbatim>\<open>NaN\<close>, which is
  \<open>None\<close> here.
\<close>

definition digit_value :: "char \<Rightarrow> int" where
  "digit_value c = int (of_char c) - 48"

definition parseFloat_digits :: "string \<Rightarrow> int option" where
  "parseFloat_digits text =
     (if text = [] then None else Some (foldl (\<lambda>n c. 10 * n + digit_value c) 0 text))"

subsection \<open>Checkout totals\<close>

text \<open>The Vietnamese label for a free delivery, shown for a zero shipping fee, in UTF-8.\<close>

definition free_label :: string where
  "free_label = [CHR ''M'', CHR ''i'', CHR 0xE1, CHR 0xBB, CHR 0x85, CHR ''n'', CHR '' '',
     CHR ''p'', CHR ''h'', CHR 0xC3, CHR 0xAD]"

record checkout_view =
  discount_amount :: int
  shipping_amount :: int
  total_amount :: int
  shown :: totals_text

text \<open>
  \<^verbatim>\<open>updateCheckoutTotals(subtotal)\<close>. The first argument is the value of the checked
  radio button of the group \<^verbatim>\<open>shipping-method\<close>, \<open>None\<close> when no button is checked (the
  function guards that case).
\<close>

definition updateCheckoutTotals :: "string option \<Rightarrow> int \<Rightarrow> checkout_view" where
  "updateCheckoutTotals shippingMethod subtotal =
     (let discount = 0;
          shipping = (case shippingMethod of
                        Some v \<Rightarrow> if v = ''express'' then 50000 else 0
                      | None \<Rightarrow> 0);
          total = js_add (js_sub subtotal discount) shipping
      in \<lparr>discount_amount = discount, shipping_amount = shipping, total_amount = total,
          shown = \<lparr>subtotal_text = formatCurrency subtotal,
                    discount_text = formatCurrency discount,
                    shipping_text = (if shipping > 0 then formatCurrency shipping else free_label),
                    total_text = formatCurrency total\<rparr>\<rparr>)"

text \<open>
  The \<^verbatim>\<open>change\<close> handler of the shipping radio buttons: the subtotal is recovered from
  the text of \<^verbatim>\<open>#checkout-subtotal\<close> and the totals are recomputed. \<open>None\<close> is the case
  of a \<^verbatim>\<open>NaN\<close> subtotal.
\<close>

definition shipping_method_changed :: "string option \<Rightarrow> string \<Rightarrow> checkout_view option" where
  "shipping_method_changed shippingMethod subtotalText =
     map_option (updateCheckoutTotals shippingMethod)
       (parseFloat_digits (strip_non_digits subtotalText))"

subsection \<open>Cart total\<close>

text \<open>
  The product of a line: \<^verbatim>\<open>fetchAPI\<close> either rejects (\<open>Inl\<close>) or delivers the JSON body,
  \<open>None\<close> for a falsy body; on rejection the sample table is searched with \<^verbatim>\<open>==\<close>
  between the table's id and the line's id. \<open>None\<close> is a product that did not resolve.
\<close>

definition find_product ::
  "('id \<Rightarrow> error + 'p product option) \<Rightarrow> ('p \<Rightarrow> 'id \<Rightarrow> bool) \<Rightarrow> 'p product list
     \<Rightarrow> 'id line \<Rightarrow> 'p product option" where
  "find_product fetchAPI loose_eq sampleProducts item =
     (case fetchAPI (line_id item) of
        Inr product \<Rightarrow> product
      | Inl err \<Rightarrow> List.find (\<lambda>p. loose_eq (product_id p) (line_id item)) sampleProducts)"

text \<open>
  The loop of \<^verbatim>\<open>renderCart\<close> over the lines, carrying \<^verbatim>\<open>totalAmount\<close> and
  \<^verbatim>\<open>totalItems\<close>; an unresolved line is skipped by \<^verbatim>\<open>continue\<close>.
\<close>

fun cart_loop :: "('id line \<Rightarrow> 'p product option) \<Rightarrow> 'id line list \<Rightarrow> int \<times> int \<Rightarrow> int \<times> int" where
  "cart_loop resolve [] acc = acc"
| "cart_loop resolve (item # rest) (totalAmount, totalItems) =
     (case resolve item of
        None \<Rightarrow> cart_loop resolve rest (totalAmount, totalItems)
      | Some product \<Rightarrow>
          cart_loop resolve rest
            (js_add totalAmount (js_mul (price product) (quantity item)),
             js_add totalItems (quantity item)))"

text \<open>\<^verbatim>\<open>updateCartTotals(subtotal)\<close>: subtotal, discount and total of the cart page.\<close>

definition updateCartTotals :: "int \<Rightarrow> int \<times> int \<times> int" where
  "updateCartTotals subtotal =
     (let discount = 0; total = js_sub subtotal discount in (subtotal, discount, total))"

text \<open>\<^verbatim>\<open>renderCart\<close>: the totals it hands to \<^verbatim>\<open>updateCartTotals\<close> and the item count.\<close>

definition renderCart ::
  "('id \<Rightarrow> error + 'p product option) \<Rightarrow> ('p \<Rightarrow> 'id \<Rightarrow> bool) \<Rightarrow> 'p product list
     \<Rightarrow> 'id line list \<Rightarrow> (int \<times> int \<times> int) \<times> int" where
  "renderCart fetchAPI loose_eq sampleProducts c =
     (if c = [] then (updateCartTotals 0, 0)
      else (let (totalAmount, totalItems) =
                  cart_loop (find_product fetchAPI loose_eq sampleProducts) c (0, 0)
            in (updateCartTotals totalAmount, totalItems)))"

definition cart_total ::
  "('id \<Rightarrow> error + 'p product option) \<Rightarrow> ('p \<Rightarrow> 'id \<Rightarrow> bool) \<Rightarrow> 'p product list
     \<Rightarrow> 'id line list \<Rightarrow> int" where
  "cart_total fetchAPI loose_eq sampleProducts c =
     (case renderCart fetchAPI loose_eq sampleProducts c of ((subtotal, discount, tot), n) \<Rightarrow> tot)"

subsection \<open>Delivery estimate\<close>

text \<open>
  A \<^verbatim>\<open>Date\<close> is used for its local calendar day only, counted in days from 1 January
  1970, a Thursday. \<^verbatim>\<open>d.setDate(d.getDate() + k)\<close> moves the day by \<open>k\<close>, across month
  ends too; \<^verbatim>\<open>getDay\<close> is 0 on a Sunday.
\<close>

definition getDay :: "date \<Rightarrow> int" where
  "getDay d = (d + 4) mod 7"

text \<open>
  \<^verbatim>\<open>getEstimatedDelivery(shippingMethod)\<close>, with the day read from the clock as an
  argument. The result is the pair of days that the source formats into one text.
\<close>

definition getEstimatedDelivery :: "date \<Rightarrow> string \<Rightarrow> date \<times> date" where
  "getEstimatedDelivery today shippingMethod =
     (let startDay = today + 1;
          startDay = (if getDay startDay = 0 then startDay + 1 else startDay);
          endDay =
            (if shippingMethod = ''express''
             then (let endDay = startDay + 2 in if getDay endDay = 0 then endDay + 1 else endDay)
             else (let endDay = startDay + 5 in if getDay endDay = 0 then endDay + 1 else endDay))
      in (startDay, endDay))"

subsection \<open>Reading the persisted store\<close>

text \<open>
  \<^verbatim>\<open>JSON.parse(localStorage.getItem(key))\<close>: an absent key gives \<^verbatim>\<open>null\<close>, which parses
  to \<^verbatim>\<open>null\<close>; \<open>Inr None\<close> is a falsy result.
\<close>

fun JSON_parse :: "'a blob option \<Rightarrow> error + 'a option" where
  "JSON_parse None = Inr None"
| "JSON_parse (Some Empty_text) = Inl SyntaxError"
| "JSON_parse (Some Malformed) = Inl SyntaxError"
| "JSON_parse (Some Json_falsy) = Inr None"
| "JSON_parse (Some (Json v)) = Inr (Some v)"

text \<open>\<^verbatim>\<open>localStorage.getItem(key) || '[]'\<close>.\<close>

fun or_empty_array :: "'a list blob option \<Rightarrow> 'a list blob option" where
  "or_empty_array None = Some (Json [])"
| "or_empty_array (Some Empty_text) = Some (Json [])"
| "or_empty_array (Some b) = Some b"

text \<open>
  The initialisation of the cart at the top of the script,
  \<^verbatim>\<open>let cart = JSON.parse(localStorage.getItem('cart')) || []\<close>, outside any
  \<^verbatim>\<open>try\<close>: \<open>Inl\<close> is the exception that ends the script.
\<close>

definition init_cart :: "'id storage \<Rightarrow> error + 'id line list" where
  "init_cart s =
     (case JSON_parse (cart_key s) of
        Inl e \<Rightarrow> Inl e
      | Inr None \<Rightarrow> Inr []
      | Inr (Some c) \<Rightarrow> Inr c)"

text \<open>
  \<^verbatim>\<open>renderOrderConfirmation\<close>, inside \<^verbatim>\<open>try\<close>: without an order the page navigates
  home; an exception is caught and logged. The second component is the order shown.
\<close>

definition renderOrderConfirmation :: "'id page \<Rightarrow> 'id page \<times> 'id order option" where
  "renderOrderConfirmation st =
     (case JSON_parse (lastOrder_key (storage st)) of
        Inl e \<Rightarrow> (st, None)
      | Inr None \<Rightarrow> (st\<lparr>href := ''/''\<rparr>, None)
      | Inr (Some orderData) \<Rightarrow> (st, Some orderData))"

subsection \<open>Recently-viewed tracker\<close>

definition snapshot :: "'id product \<Rightarrow> 'id viewed" where
  "snapshot product =
     \<lparr>viewed_id = product_id product, viewed_name = name product,
      viewed_price = price product, viewed_original_price = original_price product,
      viewed_image = image product, viewed_category = category product,
      viewed_discount_percentage = discount_percentage product,
      viewed_rating = rating product\<rparr>"

text \<open>\<^verbatim>\<open>xs.splice(index, 1)\<close>.\<close>

definition splice1 :: "nat \<Rightarrow> 'a list \<Rightarrow> 'a list" where
  "splice1 index xs = take index xs @ drop (Suc index) xs"

text \<open>
  \<^verbatim>\<open>saveViewedProduct(product)\<close>. The whole body is inside \<^verbatim>\<open>try\<close>: a
  \<^verbatim>\<open>SyntaxError\<close> of the parse, or the \<^verbatim>\<open>TypeError\<close> of calling \<^verbatim>\<open>findIndex\<close> on a
  falsy value, is caught and logged, and nothing is stored.
\<close>

definition saveViewedProduct :: "'id product \<Rightarrow> 'id page \<Rightarrow> 'id page" where
  "saveViewedProduct product st =
     (case JSON_parse (or_empty_array (viewedProducts_key (storage st))) of
        Inl e \<Rightarrow> st
      | Inr None \<Rightarrow> st
      | Inr (Some viewedProducts) \<Rightarrow>
          (let viewedProducts1 =
                 (case findIndex (\<lambda>p. viewed_id p = product_id product) viewedProducts of
                    Some index \<Rightarrow> splice1 index viewedProducts
                  | None \<Rightarrow> viewedProducts);
               viewedProducts2 = snapshot product # viewedProducts1;
               viewedProducts3 = take 10 viewedProducts2
           in st\<lparr>storage := (storage st)\<lparr>viewedProducts_key := Some (Json viewedProducts3)\<rparr>\<rparr>))"

text \<open>
  \<^verbatim>\<open>showRecentlyViewedProducts\<close> on the detail page of \<open>productId\<close>, also inside
  \<^verbatim>\<open>try\<close>: the container is hidden when nothing else was viewed, otherwise at most 4
  cards are shown; a caught exception leaves the container as it was.
\<close>

datatype 'a recent_view = Hidden | Cards "'a list" | Untouched

definition showRecentlyViewedProducts :: "'id \<Rightarrow> 'id page \<Rightarrow> 'id viewed recent_view" where
  "showRecentlyViewedProducts productId st =
     (case JSON_parse (or_empty_array (viewedProducts_key (storage st))) of
        Inl e \<Rightarrow> Untouched
      | Inr None \<Rightarrow> Untouched
      | Inr (Some viewedProducts) \<Rightarrow>
          (let viewedProducts1 = filter (\<lambda>p. viewed_id p \<noteq> productId) viewedProducts
           in if viewedProducts1 = [] then Hidden else Cards (take 4 viewedProducts1)))"

fun run_views :: "'id product list \<Rightarrow> 'id page \<Rightarrow> 'id page" where
  "run_views [] st = st"
| "run_views (p # ps) st = run_views ps (saveViewedProduct p st)"

text \<open>The persisted list is absent, or a list of at most 10 entries with distinct ids.\<close>

definition viewed_ok :: "'id storage \<Rightarrow> bool" where
  "viewed_ok s =
     (case viewedProducts_key s of
        None \<Rightarrow> True
      | Some (Json vs) \<Rightarrow> length vs \<le> 10 \<and> distinct (map viewed_id vs)
      | Some b \<Rightarrow> False)"

subsection \<open>Checkout submission\<close>




subsection \<open>Example inputs\<close>

definition example_product :: "int \<Rightarrow> int \<Rightarrow> int product" where
  "example_product i p =
     \<lparr>product_id = i, name = ''Sofa'', price = p, original_price = None,
      discount_percentage = None, image = ''sofa.jpg'', category = ''living'',
      rating = None, review_count = None\<rparr>"


definition example_cart_page :: "string page" where
  "example_cart_page =
     empty_page\<lparr>cart := [\<lparr>line_id = ''1'', quantity = 2\<rparr>, \<lparr>line_id = ''2'', quantity = 1\<rparr>]\<rparr>"

text \<open>A cart whose only line has reached the quantity \<open>2^53\<close>.\<close>

definition example_large_page :: "string page" where
  "example_large_page = empty_page\<lparr>cart := [\<lparr>line_id = ''42'', quantity = 2 ^ 53\<rparr>]\<rparr>"

text \<open>A service that knows product 1 only, and a table with a stale price for it.\<close>

definition example_service :: "int \<Rightarrow> error + int product option" where
  "example_service i =
     (if i = 1 then Inr (Some (example_product 1 100000))
      else if i = 4 then Inr None
      else Inl ApiError)"

definition example_table :: "int product list" where
  "example_table = [example_product 1 90000, example_product 2 50000, example_product 4 70000]"

section \<open>Properties\<close>

subsection \<open>Searching a list\<close>

lemma findIndex_None: "findIndex P xs = None \<longleftrightarrow> (\<forall>x\<in>set xs. \<not> P x)"
  by (induction xs) auto

lemma findIndex_Some:
  "findIndex P xs = Some i \<Longrightarrow> i < length xs \<and> P (xs ! i) \<and> (\<forall>j<i. \<not> P (xs ! j))"
proof (induction xs arbitrary: i)
  case Nil
  then show ?case by simp
next
  case (Cons x xs)
  show ?case
  proof (cases "P x")
    case True
    with Cons.prems show ?thesis by simp
  next
    case False
    with Cons.prems obtain k where k: "findIndex P xs = Some k" "i = Suc k"
      by auto
    from Cons.IH [OF k(1)] False k(2) show ?thesis
      by (auto simp: less_Suc_eq_0_disj)
  qed
qed

subsection \<open>Arithmetic of integer-valued doubles\<close>

lemma exponent_small: "n < 2 ^ 53 \<Longrightarrow> exponent n = 0"
  by (simp add: exponent.simps)

lemma exponent_big: "\<not> n < 2 ^ 53 \<Longrightarrow> exponent n = Suc (exponent (n div 2))"
  by (subst exponent.simps) simp

lemma round53_nat_exact: "n \<le> 2 ^ 53 \<Longrightarrow> round53_nat n = n"
proof (cases "n < 2 ^ 53")
  case True
  then show ?thesis by (simp add: round53_nat_def exponent_small)
next
  case False
  assume "n \<le> 2 ^ 53"
  with False have n: "n = 2 ^ 53" by simp
  have "exponent (2 ^ 53) = Suc (exponent (2 ^ 53 div 2))"
    by (subst exponent.simps) simp
  then have "exponent (2 ^ 53) = Suc 0"
    by (simp add: exponent_small)
  with n show ?thesis
    by (simp add: round53_nat_def)
qed

lemma round53_exact: "\<bar>x\<bar> \<le> 2 ^ 53 \<Longrightarrow> round53 x = x"
  by (simp add: round53_def round53_nat_exact nat_le_iff)

lemma js_add_exact: "\<bar>a + b\<bar> \<le> 2 ^ 53 \<Longrightarrow> js_add a b = a + b"
  by (simp add: js_add_def round53_exact)

lemma js_sub_exact: "\<bar>a - b\<bar> \<le> 2 ^ 53 \<Longrightarrow> js_sub a b = a - b"
  by (simp add: js_sub_def round53_exact)

lemma js_mul_exact: "\<bar>a * b\<bar> \<le> 2 ^ 53 \<Longrightarrow> js_mul a b = a * b"
  by (simp add: js_mul_def round53_exact)

lemma exponent_le: "0 < n \<Longrightarrow> 2 ^ exponent n \<le> n"
proof (induction n rule: exponent.induct)
  case (1 n)
  show ?case
  proof (cases "n < 2 ^ 53")
    case True
    with 1 show ?thesis by (simp add: exponent_small)
  next
    case False
    then have "0 < n div 2" by simp
    with 1 False have "2 ^ exponent (n div 2) \<le> n div 2" by simp
    then have "2 * 2 ^ exponent (n div 2) \<le> n" by simp
    with False show ?thesis by (simp add: exponent_big)
  qed
qed

lemma round53_nat_pos: "0 < n \<Longrightarrow> 0 < round53_nat n"
proof -
  assume n: "0 < n"
  then have "0 < n div 2 ^ exponent n"
    using exponent_le [OF n] by (simp add: div_greater_zero_iff)
  then show ?thesis
    by (simp add: round53_nat_def Let_def)
qed

lemma round53_pos: "1 \<le> x \<Longrightarrow> 1 \<le> round53 x"
  using round53_nat_pos [of "nat x"] by (simp add: round53_def)

lemmas round53_eval = round53_def round53_nat_def exponent_small exponent_big Let_def

subsection \<open>Adding to the cart\<close>

lemma addToCart_lines:
  "(case findIndex (\<lambda>item. line_id item = p) xs of
      Some i \<Rightarrow> xs[i := (xs ! i)\<lparr>quantity := js_add (quantity (xs ! i)) q\<rparr>]
    | None \<Rightarrow> xs @ [\<lparr>line_id = p, quantity = q\<rparr>]) = add_line p q xs"
  by (induction xs) (auto split: option.splits)

lemma cart_addToCart: "cart (addToCart p q st) = add_line p q (cart st)"
  by (simp add: addToCart_def Let_def showNotification_def updateCartCount_def save_cart_def
      addToCart_lines)

lemma stored_addToCart:
  "cart_key (storage (addToCart p q st)) = Some (Json (cart (addToCart p q st)))"
  by (simp add: addToCart_def Let_def showNotification_def updateCartCount_def save_cart_def)

lemma count_addToCart:
  "cart_count (addToCart p q st)
     = foldl (\<lambda>total item. js_add total (quantity item)) 0 (cart (addToCart p q st))"
  by (simp add: addToCart_def Let_def showNotification_def updateCartCount_def save_cart_def)

lemma add_line_twice:
  "\<bar>n + m\<bar> \<le> 2 ^ 53 \<Longrightarrow>
   \<forall>item\<in>set xs. line_id item = p \<longrightarrow>
      \<bar>quantity item + n\<bar> \<le> 2 ^ 53 \<and> \<bar>quantity item + n + m\<bar> \<le> 2 ^ 53 \<Longrightarrow>
   add_line p m (add_line p n xs) = add_line p (n + m) xs"
proof (induction xs)
  case Nil
  then show ?case by (simp add: js_add_exact)
next
  case (Cons x xs)
  show ?case
  proof (cases "line_id x = p")
    case True
    with Cons.prems have "\<bar>quantity x + n\<bar> \<le> 2 ^ 53" "\<bar>quantity x + n + m\<bar> \<le> 2 ^ 53"
      by simp_all
    then have "js_add (js_add (quantity x) n) m = js_add (quantity x) (n + m)"
      by (simp add: js_add_exact add.assoc)
    with True show ?thesis by simp
  next
    case False
    with Cons show ?thesis by simp
  qed
qed

text \<open>
  Claim C8, as amended. For every page state, product id \<open>p\<close> and quantities \<open>n\<close> and
  \<open>m\<close> such that \<open>n + m\<close> and, for a line of \<open>p\<close> already in the cart with quantity
  \<open>q\<close>, also \<open>q + n\<close> and \<open>q + n + m\<close> lie within \<open>2^53\<close> in magnitude (where the
  double addition is exact), \<^verbatim>\<open>addToCart(p, n)\<close> followed by \<^verbatim>\<open>addToCart(p, m)\<close> leaves
  the same cart, the same persisted cart and the same badge as the single call
  \<^verbatim>\<open>addToCart(p, n + m)\<close>; from the empty cart, adding 1 and then 2 of product 42 gives
  the one line \<open>{42, 3}\<close>.
\<close>

theorem addToCart_twice:
  assumes "\<bar>n + m\<bar> \<le> 2 ^ 53"
    and "\<forall>item\<in>set (cart st). line_id item = p \<longrightarrow>
           \<bar>quantity item + n\<bar> \<le> 2 ^ 53 \<and> \<bar>quantity item + n + m\<bar> \<le> 2 ^ 53"
  shows "cart (addToCart p m (addToCart p n st)) = cart (addToCart p (n + m) st)
   \<and> cart_key (storage (addToCart p m (addToCart p n st)))
       = cart_key (storage (addToCart p (n + m) st))
   \<and> cart_count (addToCart p m (addToCart p n st)) = cart_count (addToCart p (n + m) st)
   \<and> cart (addToCart (42::int) 2 (addToCart 42 1 empty_page)) = [\<lparr>line_id = 42, quantity = 3\<rparr>]"
proof -
  have "add_line p m (add_line p n (cart st)) = add_line p (n + m) (cart st)"
    using assms by (rule add_line_twice)
  moreover have "js_add 1 2 = 3"
    by (simp add: js_add_exact)
  ultimately show ?thesis
    by (simp add: stored_addToCart count_addToCart cart_addToCart empty_page_def)
qed

theorem addToCart_twice_witness:
  "\<bar>(1::int) + 4\<bar> \<le> 2 ^ 53
   \<and> cart example_cart_page = [\<lparr>line_id = ''1'', quantity = 2\<rparr>, \<lparr>line_id = ''2'', quantity = 1\<rparr>]
   \<and> \<bar>(2::int) + 1\<bar> \<le> 2 ^ 53 \<and> \<bar>(2::int) + 1 + 4\<bar> \<le> 2 ^ 53
   \<and> cart (addToCart ''7'' 4 (addToCart ''7'' 1 example_cart_page))
     = cart (addToCart ''7'' (1 + 4) example_cart_page)
   \<and> cart (addToCart ''1'' 4 (addToCart ''1'' 1 example_cart_page))
     = cart (addToCart ''1'' (1 + 4) example_cart_page)
   \<and> cart (addToCart ''1'' (1 + 4) example_cart_page)
     = [\<lparr>line_id = ''1'', quantity = 7\<rparr>, \<lparr>line_id = ''2'', quantity = 1\<rparr>]"
proof -
  have h1: "\<bar>(1::int) + 4\<bar> \<le> 2 ^ 53"
    by simp
  have h2: "\<forall>item\<in>set (cart example_cart_page). line_id item = ''1'' \<longrightarrow>
         \<bar>quantity item + 1\<bar> \<le> 2 ^ 53 \<and> \<bar>quantity item + 1 + 4\<bar> \<le> 2 ^ 53"
    by (simp add: example_cart_page_def)
  have h3: "\<forall>item\<in>set (cart example_cart_page). line_id item = ''7'' \<longrightarrow>
         \<bar>quantity item + 1\<bar> \<le> 2 ^ 53 \<and> \<bar>quantity item + 1 + 4\<bar> \<le> 2 ^ 53"
    by (simp add: example_cart_page_def)
  have "js_add 2 5 = 7"
    by (simp add: js_add_exact)
  then have "cart (addToCart ''1'' (1 + 4) example_cart_page)
     = [\<lparr>line_id = ''1'', quantity = 7\<rparr>, \<lparr>line_id = ''2'', quantity = 1\<rparr>]"
    by (simp add: cart_addToCart example_cart_page_def)
  moreover have "cart example_cart_page
      = [\<lparr>line_id = ''1'', quantity = 2\<rparr>, \<lparr>line_id = ''2'', quantity = 1\<rparr>]"
    by (simp add: example_cart_page_def empty_page_def)
  ultimately show ?thesis
    using h1 addToCart_twice [OF h1 h2] addToCart_twice [OF h1 h3]
    by simp
qed

text \<open>
  Without the bound the two runs differ: on a line of quantity \<open>2^53\<close> each addition of
  1 is rounded back to \<open>2^53\<close>, while one addition of 2 gives \<open>2^53 + 2\<close>.
\<close>

theorem addToCart_twice_counterexample:
  "cart (addToCart ''42'' 1 (addToCart ''42'' 1 example_large_page))
     = [\<lparr>line_id = ''42'', quantity = 2 ^ 53\<rparr>]
   \<and> cart (addToCart ''42'' (1 + 1) example_large_page)
     = [\<lparr>line_id = ''42'', quantity = 2 ^ 53 + 2\<rparr>]
   \<and> cart (addToCart ''42'' 1 (addToCart ''42'' 1 example_large_page))
     \<noteq> cart (addToCart ''42'' (1 + 1) example_large_page)"
proof -
  have "js_add (2 ^ 53) 1 = 2 ^ 53" "js_add (2 ^ 53) 2 = 2 ^ 53 + 2"
    by (simp_all add: js_add_def round53_eval)
  then show ?thesis
    by (simp add: cart_addToCart example_large_page_def)
qed

subsection \<open>The cart invariant\<close>

lemma ids_add_line:
  "map line_id (add_line p q xs)
     = (if p \<in> set (map line_id xs) then map line_id xs else map line_id xs @ [p])"
  by (induction xs) auto

lemma quantities_add_line:
  "list_all (\<lambda>item. 1 \<le> quantity item) xs \<Longrightarrow> 1 \<le> q \<Longrightarrow>
     list_all (\<lambda>item. 1 \<le> quantity item) (add_line p q xs)"
  by (induction xs) (auto simp: js_add_def intro: round53_pos)

lemma cart_ok_add_line: "cart_ok xs \<Longrightarrow> 1 \<le> q \<Longrightarrow> cart_ok (add_line p q xs)"
  by (simp add: cart_ok_def ids_add_line quantities_add_line)

lemma cart_ok_filter: "cart_ok xs \<Longrightarrow> cart_ok (filter P xs)"
  by (simp add: cart_ok_def distinct_map_filter list_all_iff)

lemma cart_removeCartItem:
  "cart (removeCartItem p st) = filter (\<lambda>item. line_id item \<noteq> p) (cart st)"
  by (simp add: removeCartItem_def updateCartCount_def save_cart_def)

lemma ids_overwrite:
  "i < length xs \<Longrightarrow> map line_id (xs[i := (xs ! i)\<lparr>quantity := q\<rparr>]) = map line_id xs"
  by (simp add: map_update list_update_same_conv)

lemma cart_ok_overwrite:
  assumes "cart_ok xs" "i < length xs" "1 \<le> q"
  shows "cart_ok (xs[i := (xs ! i)\<lparr>quantity := q\<rparr>])"
proof -
  have "set (xs[i := (xs ! i)\<lparr>quantity := q\<rparr>]) \<subseteq> insert ((xs ! i)\<lparr>quantity := q\<rparr>) (set xs)"
    by (rule set_update_subset_insert)
  with assms show ?thesis
    by (auto simp: cart_ok_def ids_overwrite list_all_iff)
qed

lemma cart_updateCartItem:
  "cart (updateCartItem p q st) =
     (case findIndex (\<lambda>item. line_id item = p) (cart st) of
        None \<Rightarrow> cart st
      | Some i \<Rightarrow> if q \<le> 0 then filter (\<lambda>item. line_id item \<noteq> p) (cart st)
                  else (cart st)[i := (cart st ! i)\<lparr>quantity := q\<rparr>])"
  by (simp add: updateCartItem_def cart_removeCartItem save_cart_def split: option.splits)

lemma cart_ok_updateCartItem: "cart_ok (cart st) \<Longrightarrow> cart_ok (cart (updateCartItem p q st))"
  by (auto simp: cart_updateCartItem cart_ok_filter cart_ok_overwrite split: option.splits
      dest: findIndex_Some)

lemma cart_ok_apply:
  "cart_ok (cart st) \<Longrightarrow> positive_add op \<Longrightarrow> cart_ok (cart (apply_cart_op op st))"
  by (cases op) (simp_all add: cart_addToCart cart_ok_add_line cart_ok_updateCartItem
      cart_removeCartItem cart_ok_filter)

text \<open>
  With every \<^verbatim>\<open>add\<close> carrying a quantity of at least 1, a run of operations keeps the
  ids unique and the quantities at least 1.
\<close>

lemma cart_ok_run:
  "cart_ok (cart st) \<Longrightarrow> list_all positive_add ops \<Longrightarrow> cart_ok (cart (run_cart_ops ops st))"
  by (induction ops arbitrary: st) (simp_all add: cart_ok_apply)

text \<open>
  Claim C1. The claim is that after every sequence of \<^verbatim>\<open>add\<close>, \<^verbatim>\<open>setQuantity\<close> and
  \<^verbatim>\<open>remove\<close> operations on an initially empty cart no two lines share a product id and
  every stored quantity is at least 1. \<^verbatim>\<open>addToCart\<close> does not inspect its quantity:
  the single operation \<^verbatim>\<open>addToCart('42', 0)\<close> on the empty cart stores, in memory and in
  the persisted store, a line of quantity 0, which breaks the claimed invariant.
\<close>

theorem addToCart_zero_quantity_stored:
  "cart (run_cart_ops [Add ''42'' 0] empty_page) = [\<lparr>line_id = ''42'', quantity = 0\<rparr>]
   \<and> cart_key (storage (run_cart_ops [Add ''42'' 0] empty_page))
       = Some (Json [\<lparr>line_id = ''42'', quantity = 0\<rparr>])
   \<and> \<not> cart_ok (cart (run_cart_ops [Add ''42'' 0] empty_page))"
  by (simp add: cart_addToCart stored_addToCart empty_page_def cart_ok_def)

subsection \<open>Setting a quantity\<close>

text \<open>
  Claim C9. For every page state: \<^verbatim>\<open>updateCartItem(p, q)\<close> with \<open>q \<le> 0\<close> on a present
  id is \<^verbatim>\<open>removeCartItem(p)\<close>; with \<open>q > 0\<close> on a present id it overwrites the quantity
  of the line of \<open>p\<close> (the first one with that id) with \<open>q\<close>, every other position of the
  sequence keeping its line, and persists the result; on an absent id it leaves the whole
  page state, cart and persisted store included, as it was, whatever \<open>q\<close> is.
\<close>

theorem updateCartItem_cases:
  "(p \<in> line_id ` set (cart st) \<and> q \<le> 0 \<longrightarrow> updateCartItem p q st = removeCartItem p st)
   \<and> (p \<in> line_id ` set (cart st) \<and> 0 < q \<longrightarrow>
        (\<exists>i<length (cart st). line_id (cart st ! i) = p \<and> (\<forall>j<i. line_id (cart st ! j) \<noteq> p)
           \<and> cart (updateCartItem p q st) = (cart st)[i := \<lparr>line_id = p, quantity = q\<rparr>]
           \<and> cart_key (storage (updateCartItem p q st))
               = Some (Json (cart (updateCartItem p q st)))))
   \<and> (p \<notin> line_id ` set (cart st) \<longrightarrow> updateCartItem p q st = st)"
proof (cases "findIndex (\<lambda>item. line_id item = p) (cart st)")
  case None
  then have "p \<notin> line_id ` set (cart st)"
    by (auto simp: findIndex_None)
  with None show ?thesis
    by (simp add: updateCartItem_def)
next
  case (Some i)
  from findIndex_Some [OF Some]
  have i: "i < length (cart st)" "line_id (cart st ! i) = p" "\<forall>j<i. line_id (cart st ! j) \<noteq> p"
    by auto
  then have present: "p \<in> line_id ` set (cart st)"
    by (metis image_eqI nth_mem)
  have line: "(cart st ! i)\<lparr>quantity := q\<rparr> = \<lparr>line_id = p, quantity = q\<rparr>"
    using i(2) by (cases "cart st ! i") simp
  show ?thesis
  proof (cases "q \<le> 0")
    case True
    with Some present show ?thesis
      by (simp add: updateCartItem_def)
  next
    case False
    have "cart (updateCartItem p q st) = (cart st)[i := \<lparr>line_id = p, quantity = q\<rparr>]"
      using Some False by (simp add: cart_updateCartItem line)
    moreover have "cart_key (storage (updateCartItem p q st))
        = Some (Json (cart (updateCartItem p q st)))"
      using Some False by (simp add: updateCartItem_def save_cart_def)
    ultimately show ?thesis using False present i
      by auto
  qed
qed

theorem updateCartItem_cases_witness:
  "''2'' \<in> line_id ` set (cart example_cart_page)
   \<and> updateCartItem ''2'' 0 example_cart_page = removeCartItem ''2'' example_cart_page
   \<and> cart (updateCartItem ''2'' 0 example_cart_page) = [\<lparr>line_id = ''1'', quantity = 2\<rparr>]
   \<and> cart (updateCartItem ''2'' 5 example_cart_page)
       = [\<lparr>line_id = ''1'', quantity = 2\<rparr>, \<lparr>line_id = ''2'', quantity = 5\<rparr>]
   \<and> ''3'' \<notin> line_id ` set (cart example_cart_page)
   \<and> updateCartItem ''3'' 5 example_cart_page = example_cart_page"
  using updateCartItem_cases [of "''2''" example_cart_page 0]
    updateCartItem_cases [of "''3''" example_cart_page 5]
  by (simp add: example_cart_page_def empty_page_def cart_updateCartItem cart_removeCartItem)

subsection \<open>Currency formatter\<close>

lemma is_digit_digit_char: "d < 10 \<Longrightarrow> is_digit (digit_char d)"
  by (simp add: is_digit_def digit_char_def)

lemma digit_value_digit_char: "d < 10 \<Longrightarrow> digit_value (digit_char d) = int d"
  by (simp add: digit_value_def digit_char_def)

lemma not_is_digit_stop: "\<not> is_digit (CHR ''.'')"
  by (simp add: is_digit_def)

lemma decimal_digits: "list_all is_digit (decimal n)"
proof (induction n rule: decimal.induct)
  case (1 n)
  show ?case
  proof (cases "n < 10")
    case True
    then show ?thesis by (simp add: decimal.simps [of n] is_digit_digit_char)
  next
    case False
    with 1 show ?thesis
      by (simp add: decimal.simps [of n] is_digit_digit_char)
  qed
qed

lemma decimal_not_Nil: "decimal n \<noteq> []"
  by (subst decimal.simps) simp

lemma filter_group3: "list_all is_digit ds \<Longrightarrow> filter is_digit (group3 ds) = ds"
  by (induction ds rule: group3.induct) (simp_all add: not_is_digit_stop)

lemma parse_decimal: "foldl (\<lambda>n c. 10 * n + digit_value c) 0 (decimal n) = int n"
proof (induction n rule: decimal.induct)
  case (1 n)
  show ?case
  proof (cases "n < 10")
    case True
    then show ?thesis by (simp add: decimal.simps [of n] digit_value_digit_char)
  next
    case False
    with 1 have "foldl (\<lambda>n c. 10 * n + digit_value c) 0 (decimal (n div 10)) = int (n div 10)"
      by simp
    moreover have "10 * int (n div 10) + int (n mod 10) = int n"
      by (simp add: zdiv_int zmod_int)
    ultimately show ?thesis using False
      by (simp add: decimal.simps [of n] digit_value_digit_char)
  qed
qed

lemma strip_formatCurrency:
  assumes "0 \<le> amount"
  shows "strip_non_digits (formatCurrency amount) = decimal (nat amount)"
proof -
  have d: "list_all is_digit (rev (decimal (nat amount)))"
    using decimal_digits [of "nat amount"] by simp
  have "filter is_digit (rev (group3 (rev (decimal (nat amount))))) = decimal (nat amount)"
    by (simp add: rev_filter [symmetric] filter_group3 [OF d])
  moreover have "filter is_digit dong_sign = []"
    by (simp add: dong_sign_def is_digit_def)
  ultimately show ?thesis using assms
    by (simp add: strip_non_digits_def formatCurrency_def toLocaleString_viVN_def)
qed

lemma char_of_eqI: "of_char c = (n::nat) \<Longrightarrow> char_of n = c"
  by auto

lemma digit_char_values:
  "digit_char 0 = CHR ''0''" "digit_char 1 = CHR ''1''" "digit_char 2 = CHR ''2''"
  "digit_char 3 = CHR ''3''" "digit_char 4 = CHR ''4''" "digit_char 5 = CHR ''5''"
  "digit_char 6 = CHR ''6''" "digit_char 7 = CHR ''7''" "digit_char 8 = CHR ''8''"
  "digit_char 9 = CHR ''9''" "digit_char (Suc 0) = CHR ''1''"
  unfolding digit_char_def by (rule char_of_eqI, simp)+

lemma formatCurrency_250000: "formatCurrency 250000 = ''250.000'' @ dong_sign"
  by (simp add: formatCurrency_def toLocaleString_viVN_def decimal.simps digit_char_values)

text \<open>
  Claim C10. For every amount \<open>\<ge> 0\<close>, removing the non-digit characters from
  \<^verbatim>\<open>formatCurrency(amount)\<close> and parsing what is left gives the amount back; hence the
  \<^verbatim>\<open>change\<close> handler of the shipping method, which reads the subtotal from its
  displayed text, recomputes the totals for the subtotal that was displayed.
\<close>

theorem formatCurrency_roundtrip:
  "0 \<le> amount \<Longrightarrow>
     parseFloat_digits (strip_non_digits (formatCurrency amount)) = Some amount
   \<and> shipping_method_changed m (subtotal_text (shown (updateCheckoutTotals m0 amount)))
       = Some (updateCheckoutTotals m amount)"
  by (simp add: strip_formatCurrency parseFloat_digits_def decimal_not_Nil parse_decimal
      shipping_method_changed_def updateCheckoutTotals_def Let_def)

theorem formatCurrency_roundtrip_witness:
  "(0::int) \<le> 250000
   \<and> formatCurrency 250000 = ''250.000'' @ dong_sign
   \<and> parseFloat_digits (strip_non_digits (formatCurrency 250000)) = Some 250000
   \<and> shipping_method_changed (Some ''express'')
        (subtotal_text (shown (updateCheckoutTotals (Some ''standard'') 250000)))
       = Some (updateCheckoutTotals (Some ''express'') 250000)"
  using formatCurrency_roundtrip [of 250000 "Some ''express''" "Some ''standard''"]
  by (simp add: formatCurrency_250000)

subsection \<open>Checkout totals\<close>

lemma formatCurrency_300000: "formatCurrency 300000 = ''300.000'' @ dong_sign"
  by (simp add: formatCurrency_def toLocaleString_viVN_def decimal.simps digit_char_values)

text \<open>
  Claim C3, as amended. For every subtotal \<open>\<ge> 0\<close> with \<open>subtotal + 50000 \<le> 2^53\<close> (where
  the double arithmetic is exact) and every state of the shipping radio group,
  \<^verbatim>\<open>updateCheckoutTotals\<close> computes a discount of 0, a shipping fee of 50000 for
  \<^verbatim>\<open>express\<close> and of 0 otherwise, and the total subtotal - discount + shipping; that
  total is not negative, so it equals its clamp at 0; and the four texts it writes are the
  formatted subtotal, the formatted discount, the formatted fee or the label for a free
  delivery, and the formatted total. A subtotal of 250000 with express shipping gives
  300000, shown as \<^verbatim>\<open>300.000\<close> followed by the dong sign.
\<close>

theorem updateCheckoutTotals_amounts:
  assumes "0 \<le> subtotal" and "subtotal + 50000 \<le> 2 ^ 53"
  shows "discount_amount (updateCheckoutTotals m subtotal) = 0
   \<and> shipping_amount (updateCheckoutTotals m subtotal)
       = (if m = Some ''express'' then 50000 else 0)
   \<and> total_amount (updateCheckoutTotals m subtotal)
       = subtotal - discount_amount (updateCheckoutTotals m subtotal)
           + shipping_amount (updateCheckoutTotals m subtotal)
   \<and> 0 \<le> total_amount (updateCheckoutTotals m subtotal)
   \<and> total_amount (updateCheckoutTotals m subtotal)
       = max 0 (subtotal - discount_amount (updateCheckoutTotals m subtotal)
           + shipping_amount (updateCheckoutTotals m subtotal))
   \<and> shown (updateCheckoutTotals m subtotal)
       = \<lparr>subtotal_text = formatCurrency subtotal,
          discount_text = formatCurrency 0,
          shipping_text = (if m = Some ''express'' then formatCurrency 50000 else free_label),
          total_text = formatCurrency (subtotal + (if m = Some ''express'' then 50000 else 0))\<rparr>
   \<and> total_amount (updateCheckoutTotals (Some ''express'') 250000) = 300000
   \<and> total_text (shown (updateCheckoutTotals (Some ''express'') 250000))
       = ''300.000'' @ dong_sign"
proof -
  from assms have sub: "js_sub subtotal 0 = subtotal"
    by (simp add: js_sub_exact)
  from assms have add: "js_add subtotal 50000 = subtotal + 50000" "js_add subtotal 0 = subtotal"
    by (simp_all add: js_add_exact)
  have ex: "js_sub 250000 0 = 250000" "js_add 250000 50000 = 300000"
    by (simp_all add: js_sub_exact js_add_exact)
  from assms(1) show ?thesis
    by (simp add: updateCheckoutTotals_def Let_def sub add ex formatCurrency_300000
        split: option.splits)
qed

theorem updateCheckoutTotals_amounts_witness:
  "(0::int) \<le> 250000 \<and> (250000::int) + 50000 \<le> 2 ^ 53
   \<and> shipping_amount (updateCheckoutTotals (Some ''express'') 250000) = 50000
   \<and> total_amount (updateCheckoutTotals (Some ''express'') 250000) = 300000
   \<and> total_text (shown (updateCheckoutTotals (Some ''express'') 250000)) = ''300.000'' @ dong_sign
   \<and> shipping_amount (updateCheckoutTotals (Some ''standard'') 250000) = 0
   \<and> total_amount (updateCheckoutTotals (Some ''standard'') 250000) = 250000
   \<and> shown (updateCheckoutTotals (Some ''standard'') 250000)
       = \<lparr>subtotal_text = ''250.000'' @ dong_sign, discount_text = ''0'' @ dong_sign,
          shipping_text = free_label, total_text = ''250.000'' @ dong_sign\<rparr>"
proof -
  have h1: "(0::int) \<le> 250000" by simp
  have h2: "(250000::int) + 50000 \<le> 2 ^ 53" by simp
  have "formatCurrency 0 = ''0'' @ dong_sign"
    by (simp add: formatCurrency_def toLocaleString_viVN_def decimal.simps digit_char_values)
  with h1 h2 updateCheckoutTotals_amounts [OF h1 h2, of "Some ''express''"]
    updateCheckoutTotals_amounts [OF h1 h2, of "Some ''standard''"]
  show ?thesis
    by (simp add: formatCurrency_250000)
qed

text \<open>
  Without the bound the total is not the sum: for the subtotal \<open>2^57\<close> the addition of
  the express fee is rounded to a multiple of 32.
\<close>

theorem updateCheckoutTotals_amounts_counterexample:
  "(0::int) \<le> 2 ^ 57
   \<and> total_amount (updateCheckoutTotals (Some ''express'') (2 ^ 57)) = 2 ^ 57 + 49984
   \<and> total_amount (updateCheckoutTotals (Some ''express'') (2 ^ 57))
       \<noteq> 2 ^ 57 - discount_amount (updateCheckoutTotals (Some ''express'') (2 ^ 57))
           + shipping_amount (updateCheckoutTotals (Some ''express'') (2 ^ 57))"
proof -
  have "js_sub (2 ^ 57) 0 = 2 ^ 57" "js_add (2 ^ 57) 50000 = 2 ^ 57 + 49984"
    by (simp_all add: js_sub_def js_add_def round53_eval)
  then show ?thesis
    by (simp add: updateCheckoutTotals_def Let_def)
qed

subsection \<open>Cart total\<close>

lemma cart_loop_amount:
  "\<bar>a\<bar> + (\<Sum>item\<leftarrow>c. \<bar>case resolve item of None \<Rightarrow> 0
                                | Some product \<Rightarrow> price product * quantity item\<bar>) \<le> 2 ^ 53 \<Longrightarrow>
   fst (cart_loop resolve c (a, n))
     = a + (\<Sum>item\<leftarrow>c. case resolve item of None \<Rightarrow> 0
                                | Some product \<Rightarrow> price product * quantity item)"
proof (induction c arbitrary: a n)
  case Nil
  then show ?case by simp
next
  case (Cons item c)
  show ?case
  proof (cases "resolve item")
    case None
    with Cons show ?thesis by simp
  next
    case (Some product)
    let ?rest = "\<Sum>item\<leftarrow>c. \<bar>case resolve item of None \<Rightarrow> 0
                                | Some product \<Rightarrow> price product * quantity item\<bar>"
    from Cons.prems Some
    have bound: "\<bar>a\<bar> + \<bar>price product * quantity item\<bar> + ?rest \<le> 2 ^ 53"
      by simp
    have rest: "0 \<le> ?rest"
      by (rule sum_list_nonneg) auto
    from bound rest have mul: "js_mul (price product) (quantity item) = price product * quantity item"
      by (intro js_mul_exact) linarith
    from bound rest
    have add: "js_add a (price product * quantity item) = a + price product * quantity item"
      by (intro js_add_exact) linarith
    from bound have "\<bar>a + price product * quantity item\<bar> + ?rest \<le> 2 ^ 53"
      by linarith
    from Cons.IH [OF this, of "js_add n (quantity item)"] Some mul add show ?thesis
      by simp
  qed
qed

lemma find_product_amount:
  "(case find_product fetchAPI loose_eq samples item of None \<Rightarrow> 0
    | Some product \<Rightarrow> price product * quantity item)
   = (case fetchAPI (line_id item) of
        Inr (Some product) \<Rightarrow> price product * quantity item
      | Inr None \<Rightarrow> 0
      | Inl err \<Rightarrow>
          (case List.find (\<lambda>p. loose_eq (product_id p) (line_id item)) samples of
             Some product \<Rightarrow> price product * quantity item
           | None \<Rightarrow> 0))"
  by (simp add: find_product_def split: sum.splits option.splits)

text \<open>
  Claim C4, as amended. For every cart, every behaviour of the catalogue service and every
  fallback table, the total shown by \<^verbatim>\<open>renderCart\<close> is the sum over the lines of the
  line amount: price times quantity of the product that the service delivers for the
  line's id; nothing when the service delivers a falsy body; and when the service call
  fails, price times quantity of the first product of the fallback table with that id, or
  nothing when the table has none. The table is not consulted for an id the service
  answers. This holds whenever the absolute line amounts sum to at most \<open>2^53\<close> (where
  the double arithmetic is exact); the function is total. For the cart \<open>[{1,2},{2,1}]\<close>,
  a service that prices product 1 at 100000 and fails for product 2, and a table that
  prices product 2 at 50000 (and product 1 at a stale 90000), the total is 250000.
\<close>

theorem cart_total_sum:
  fixes fetchAPI :: "'id \<Rightarrow> error + 'p product option"
    and loose_eq :: "'p \<Rightarrow> 'id \<Rightarrow> bool"
    and samples :: "'p product list"
  defines "amount \<equiv> \<lambda>item.
     (case fetchAPI (line_id item) of
        Inr (Some product) \<Rightarrow> price product * quantity item
      | Inr None \<Rightarrow> 0
      | Inl err \<Rightarrow>
          (case List.find (\<lambda>p. loose_eq (product_id p) (line_id item)) samples of
             Some product \<Rightarrow> price product * quantity item
           | None \<Rightarrow> 0))"
  assumes "(\<Sum>item\<leftarrow>c. \<bar>amount item\<bar>) \<le> 2 ^ 53"
  shows "cart_total fetchAPI loose_eq samples c = (\<Sum>item\<leftarrow>c. amount item)
   \<and> cart_total example_service (=) example_table
        [\<lparr>line_id = 1, quantity = 2\<rparr>, \<lparr>line_id = 2, quantity = 1\<rparr>] = 250000"
proof -
  let ?resolve = "find_product fetchAPI loose_eq samples"
  have amount: "amount = (\<lambda>item. case ?resolve item of None \<Rightarrow> 0
                                | Some product \<Rightarrow> price product * quantity item)"
    unfolding amount_def by (simp add: find_product_amount)
  from assms(2) have "\<bar>0\<bar> + (\<Sum>item\<leftarrow>c. \<bar>amount item\<bar>) \<le> 2 ^ 53"
    by simp
  then have loop: "fst (cart_loop ?resolve c (0, 0)) = (\<Sum>item\<leftarrow>c. amount item)"
    unfolding amount by (simp add: cart_loop_amount)
  have "\<bar>\<Sum>item\<leftarrow>c. amount item\<bar> \<le> (\<Sum>item\<leftarrow>c. \<bar>amount item\<bar>)"
    using sum_list_abs [of "map amount c"] by (simp add: comp_def)
  with assms(2) have "js_sub (\<Sum>item\<leftarrow>c. amount item) 0 = (\<Sum>item\<leftarrow>c. amount item)"
    by (simp add: js_sub_exact)
  with loop have general: "cart_total fetchAPI loose_eq samples c = (\<Sum>item\<leftarrow>c. amount item)"
    by (cases "cart_loop ?resolve c (0, 0)")
      (auto simp: cart_total_def renderCart_def updateCartTotals_def js_sub_exact)
  have "js_mul 100000 2 = 200000" "js_mul 50000 1 = 50000" "js_add 0 200000 = 200000"
    "js_add 200000 50000 = 250000" "js_sub 250000 0 = 250000"
    by (simp_all add: js_mul_exact js_add_exact js_sub_exact)
  then have "cart_total example_service (=) example_table
        [\<lparr>line_id = 1, quantity = 2\<rparr>, \<lparr>line_id = 2, quantity = 1\<rparr>] = 250000"
    by (simp add: cart_total_def renderCart_def updateCartTotals_def find_product_def
        example_service_def example_table_def example_product_def)
  with general show ?thesis by simp
qed


theorem cart_total_sum_witness:
  "cart_total example_service (=) example_table
     [\<lparr>line_id = 1, quantity = 2\<rparr>, \<lparr>line_id = 3, quantity = 5\<rparr>, \<lparr>line_id = 4, quantity = 1\<rparr>,
      \<lparr>line_id = 2, quantity = 1\<rparr>] = 250000"
proof -
  have "cart_total example_service (=) example_table
     [\<lparr>line_id = 1, quantity = 2\<rparr>, \<lparr>line_id = 3, quantity = 5\<rparr>, \<lparr>line_id = 4, quantity = 1\<rparr>,
      \<lparr>line_id = 2, quantity = 1\<rparr>]
    = (\<Sum>item\<leftarrow>[\<lparr>line_id = 1, quantity = 2\<rparr>, \<lparr>line_id = 3, quantity = 5\<rparr>,
         \<lparr>line_id = 4, quantity = 1\<rparr>, \<lparr>line_id = 2, quantity = 1\<rparr>].
        case example_service (line_id item) of
          Inr (Some product) \<Rightarrow> price product * quantity item
        | Inr None \<Rightarrow> 0
        | Inl err \<Rightarrow>
            (case List.find (\<lambda>p. product_id p = line_id item) example_table of
               Some product \<Rightarrow> price product * quantity item
             | None \<Rightarrow> 0))"
    by (rule cart_total_sum [THEN conjunct1])
      (simp add: example_service_def example_table_def example_product_def)
  then show ?thesis
    by (simp add: example_service_def example_table_def example_product_def)
qed

text \<open>
  Without the bound the total is not the sum: three pieces at the price \<open>2^53 + 2\<close>
  are rounded to a multiple of 4.
\<close>

theorem cart_total_sum_counterexample:
  "cart_total (\<lambda>i. Inr (Some (example_product 1 (2 ^ 53 + 2)))) (=) []
      [\<lparr>line_id = 1, quantity = 3\<rparr>]
     = 3 * 2 ^ 53 + 8
   \<and> cart_total (\<lambda>i. Inr (Some (example_product 1 (2 ^ 53 + 2)))) (=) []
      [\<lparr>line_id = 1, quantity = 3\<rparr>]
     \<noteq> price (example_product 1 (2 ^ 53 + 2)) * quantity \<lparr>line_id = 1::int, quantity = 3\<rparr>"
proof -
  have "js_mul (2 ^ 53 + 2) 3 = 3 * 2 ^ 53 + 8" "js_add 0 (3 * 2 ^ 53 + 8) = 3 * 2 ^ 53 + 8"
    "js_sub (3 * 2 ^ 53 + 8) 0 = 3 * 2 ^ 53 + 8"
    by (simp_all add: js_mul_def js_add_def js_sub_def round53_eval)
  then show ?thesis
    by (simp add: cart_total_def renderCart_def updateCartTotals_def find_product_def
        example_product_def)
qed

subsection \<open>Delivery estimate\<close>

text \<open>
  Claim C5. The delivery estimate is a function of the day of the clock and the shipping
  method alone: its start is tomorrow, or the day after when tomorrow is a Sunday; its end
  is the start plus 2 days for \<^verbatim>\<open>express\<close> and plus 5 days otherwise, moved one day
  later when that is a Sunday; and for the same day the express end is not later than the
  standard end.
\<close>

theorem getEstimatedDelivery_days:
  "fst (getEstimatedDelivery today m) = (if getDay (today + 1) = 0 then today + 2 else today + 1)
   \<and> snd (getEstimatedDelivery today m) =
       (let s = fst (getEstimatedDelivery today m);
            e = s + (if m = ''express'' then 2 else 5)
        in if getDay e = 0 then e + 1 else e)
   \<and> snd (getEstimatedDelivery today ''express'') \<le> snd (getEstimatedDelivery today ''standard'')"
  by (simp add: getEstimatedDelivery_def Let_def)

theorem getEstimatedDelivery_days_witness:
  "getEstimatedDelivery 2 ''express'' = (4, 6)
   \<and> getEstimatedDelivery 2 ''standard'' = (4, 9)
   \<and> getEstimatedDelivery 0 ''express'' = (1, 4)
   \<and> getEstimatedDelivery 0 ''standard'' = (1, 6)"
  using getEstimatedDelivery_days [of 2 "''express''"] getEstimatedDelivery_days [of 2 "''standard''"]
    getEstimatedDelivery_days [of 0 "''express''"] getEstimatedDelivery_days [of 0 "''standard''"]
  by (simp add: getEstimatedDelivery_def getDay_def Let_def)

subsection \<open>Reading corrupted store entries\<close>

lemma saveViewedProduct_malformed:
  "viewedProducts_key (storage st) = Some Malformed \<Longrightarrow> saveViewedProduct p st = st"
  by (simp add: saveViewedProduct_def)

lemma saveViewedProduct_absent:
  "viewedProducts_key (storage st) = None \<Longrightarrow>
     viewedProducts_key (storage (saveViewedProduct p st)) = Some (Json [snapshot p])"
  by (simp add: saveViewedProduct_def)

lemma showRecentlyViewedProducts_malformed:
  "viewedProducts_key (storage st) = Some Malformed \<Longrightarrow>
     showRecentlyViewedProducts i st = Untouched"
  by (simp add: showRecentlyViewedProducts_def)

lemma renderOrderConfirmation_malformed:
  "lastOrder_key (storage st) = Some Malformed \<Longrightarrow> renderOrderConfirmation st = (st, None)"
  by (simp add: renderOrderConfirmation_def)

lemma renderOrderConfirmation_absent:
  "lastOrder_key (storage st) = None \<Longrightarrow>
     renderOrderConfirmation st = (st\<lparr>href := ''/''\<rparr>, None)"
  by (simp add: renderOrderConfirmation_def)

text \<open>
  Claim C6. The claim is that for each of the keys \<^verbatim>\<open>cart\<close>, \<^verbatim>\<open>viewedProducts\<close> and
  \<^verbatim>\<open>lastOrder\<close> a stored text that is not valid JSON is treated as an absent value by
  every reader and never surfaces as a parse failure. The readers of
  \<^verbatim>\<open>viewedProducts\<close> and \<^verbatim>\<open>lastOrder\<close> parse inside \<^verbatim>\<open>try\<close>, but the
  initialisation of the cart does not: with a malformed text under \<^verbatim>\<open>cart\<close> it ends in
  the \<^verbatim>\<open>SyntaxError\<close>, where an absent key gives the empty cart.
\<close>

theorem init_cart_malformed:
  "init_cart ((empty_storage :: string storage)\<lparr>cart_key := Some Malformed\<rparr>) = Inl SyntaxError
   \<and> init_cart (empty_storage :: string storage) = Inr []"
  by (simp add: init_cart_def empty_storage_def)

subsection \<open>Recently-viewed tracker\<close>

lemma splice1_first:
  "distinct (map f xs) \<Longrightarrow> findIndex (\<lambda>x. f x = a) xs = Some i \<Longrightarrow>
     splice1 i xs = filter (\<lambda>x. f x \<noteq> a) xs"
proof (induction xs arbitrary: i)
  case Nil
  then show ?case by simp
next
  case (Cons x xs)
  show ?case
  proof (cases "f x = a")
    case True
    with Cons.prems have "i = 0" and "\<forall>y\<in>set xs. f y \<noteq> a"
      by (auto simp: image_iff)
    with True show ?thesis
      by (simp add: splice1_def)
  next
    case False
    with Cons.prems obtain k where k: "findIndex (\<lambda>x. f x = a) xs = Some k" "i = Suc k"
      by auto
    with Cons False show ?thesis
      by (simp add: splice1_def)
  qed
qed

lemma removed_entry:
  "distinct (map f xs) \<Longrightarrow>
     (case findIndex (\<lambda>x. f x = a) xs of Some i \<Rightarrow> splice1 i xs | None \<Rightarrow> xs)
       = filter (\<lambda>x. f x \<noteq> a) xs"
  by (auto simp: splice1_first findIndex_None split: option.splits)

lemma saveViewedProduct_stored:
  "viewedProducts_key (storage st) = Some (Json vs) \<Longrightarrow> distinct (map viewed_id vs) \<Longrightarrow>
     viewedProducts_key (storage (saveViewedProduct p st))
       = Some (Json (take 10 (snapshot p # filter (\<lambda>v. viewed_id v \<noteq> product_id p) vs)))"
  by (simp add: saveViewedProduct_def Let_def removed_entry)

lemma distinct_front:
  assumes "distinct (map viewed_id vs)"
  shows "distinct (map viewed_id
           (take 10 (snapshot p # filter (\<lambda>v. viewed_id v \<noteq> product_id p) vs)))"
proof -
  from assms
  have "distinct (map viewed_id (snapshot p # filter (\<lambda>v. viewed_id v \<noteq> product_id p) vs))"
    by (auto simp: distinct_map_filter snapshot_def)
  then show ?thesis
    by (simp only: take_map [symmetric] distinct_take)
qed

lemma viewed_ok_save:
  assumes ok: "viewed_ok (storage st)"
  shows "viewed_ok (storage (saveViewedProduct p st))"
proof (cases "viewedProducts_key (storage st)")
  case None
  then show ?thesis
    by (simp add: viewed_ok_def saveViewedProduct_absent snapshot_def)
next
  case (Some b)
  with ok obtain vs where vs: "b = Json vs" "distinct (map viewed_id vs)"
    by (cases b) (auto simp: viewed_ok_def)
  from saveViewedProduct_stored [of st vs p] Some vs distinct_front [of vs p]
  show ?thesis
    by (simp add: viewed_ok_def)
qed

lemma viewed_ok_run: "viewed_ok (storage st) \<Longrightarrow> viewed_ok (storage (run_views ps st))"
  by (induction ps arbitrary: st) (simp_all add: viewed_ok_save)

lemma length_filter_distinct:
  "distinct (map f xs) \<Longrightarrow> a \<in> f ` set xs \<Longrightarrow>
     Suc (length (filter (\<lambda>x. f x \<noteq> a) xs)) = length xs"
proof (induction xs)
  case Nil
  then show ?case by simp
next
  case (Cons x xs)
  show ?case
  proof (cases "f x = a")
    case True
    with Cons.prems have "\<forall>y\<in>set xs. f y \<noteq> a"
      by (auto simp: image_iff)
    with True show ?thesis by simp
  next
    case False
    with Cons show ?thesis by simp
  qed
qed

text \<open>
  Claim C7. After every sequence of \<^verbatim>\<open>saveViewedProduct\<close> calls, from an absent list or
  from any persisted list of at most 10 entries with distinct ids, the persisted list has
  at most 10 entries and no two entries with the same id; and recording a product whose
  id is already in the list puts its fresh snapshot at index 0, followed by the other
  entries in their order, the length staying what it was.
\<close>

theorem saveViewedProduct_bounded_distinct:
  "viewed_ok (storage (run_views ps (empty_page :: 'id page)))
   \<and> (viewed_ok (storage st) \<longrightarrow> viewed_ok (storage (run_views ps st)))
   \<and> (viewed_ok (storage st) \<and> viewedProducts_key (storage st) = Some (Json vs)
        \<and> product_id p \<in> viewed_id ` set vs \<longrightarrow>
       viewedProducts_key (storage (saveViewedProduct p st))
         = Some (Json (snapshot p # filter (\<lambda>v. viewed_id v \<noteq> product_id p) vs))
       \<and> length (snapshot p # filter (\<lambda>v. viewed_id v \<noteq> product_id p) vs) = length vs)"
proof (intro conjI impI)
  have "viewed_ok (storage (empty_page :: 'id page))"
    by (simp add: viewed_ok_def empty_page_def empty_storage_def)
  then show "viewed_ok (storage (run_views ps (empty_page :: 'id page)))"
    by (rule viewed_ok_run)
next
  assume "viewed_ok (storage st)"
  then show "viewed_ok (storage (run_views ps st))"
    by (rule viewed_ok_run)
next
  assume a: "viewed_ok (storage st) \<and> viewedProducts_key (storage st) = Some (Json vs)
        \<and> product_id p \<in> viewed_id ` set vs"
  then have vs: "length vs \<le> 10" "distinct (map viewed_id vs)"
    by (auto simp: viewed_ok_def)
  from a vs(2)
  have len: "Suc (length (filter (\<lambda>v. viewed_id v \<noteq> product_id p) vs)) = length vs"
    by (simp add: length_filter_distinct)
  then show "length (snapshot p # filter (\<lambda>v. viewed_id v \<noteq> product_id p) vs) = length vs"
    by simp
  from a vs len show "viewedProducts_key (storage (saveViewedProduct p st))
         = Some (Json (snapshot p # filter (\<lambda>v. viewed_id v \<noteq> product_id p) vs))"
    by (simp add: saveViewedProduct_stored)
qed

theorem saveViewedProduct_bounded_distinct_witness:
  "viewed_ok (storage (run_views [example_product 1 100, example_product 2 200] empty_page))
   \<and> viewedProducts_key (storage (run_views [example_product 1 100, example_product 2 200] empty_page))
       = Some (Json [snapshot (example_product 2 200), snapshot (example_product 1 100)])
   \<and> product_id (example_product 1 150)
       \<in> viewed_id ` set [snapshot (example_product 2 200), snapshot (example_product 1 100)]
   \<and> viewedProducts_key (storage (saveViewedProduct (example_product 1 150)
         (run_views [example_product 1 100, example_product 2 200] empty_page)))
       = Some (Json [snapshot (example_product 1 150), snapshot (example_product 2 200)])"
  using saveViewedProduct_bounded_distinct [of "[example_product 1 100, example_product 2 200]"
      "run_views [example_product 1 100, example_product 2 200] empty_page"
      "[snapshot (example_product 2 200), snapshot (example_product 1 100)]"
      "example_product 1 150"]
  by (simp add: saveViewedProduct_def empty_page_def empty_storage_def splice1_def
      snapshot_def example_product_def Let_def)

subsection \<open>Checkout submission\<close>




end
